theory Spec2Isabelle
  imports Main
begin

section \<open>Virtual drive settings controller (filen-web)\<close>

text \<open>
  The component \<open>VirtualDrive\<close> holds the declared configuration
  (\<open>desktopConfig.virtualDriveConfig\<close>), the single-flight flag \<open>enabling\<close> and four
  cached queries, and drives the native mount service through \<open>window.desktopAPI\<close>.
  Its event handlers are asynchronous functions; each is embedded as a function from the
  component state to the component state. Everything outside the component (the native
  service, the confirmation dialog, the directory picker) is a parameter: a record of
  functions over an arbitrary world \<open>'w\<close>, each returning its answer and the next world.
  What a handler does to the outside is recorded, in order, in the \<open>trace\<close> of the state.
\<close>

subsection \<open>Values\<close>

text \<open>
  A value a promise rejects with, as the catch blocks read it: \<open>JsError message text\<close>
  is a value with that \<open>message\<close> (if any) and that \<open>toString()\<close>; \<open>JsNullish\<close> is
  \<open>null\<close> or \<open>undefined\<close>, and stands for any value that has neither.
\<close>

datatype js_error = JsError "string option" string | JsNullish

definition newError :: "string \<Rightarrow> js_error" where
  "newError m = JsError (Some m) (''Error: '' @ m)"

text \<open>
  \<open>e.message ?? e.toString()\<close>. On \<open>null\<close> and \<open>undefined\<close> reading \<open>message\<close>
  throws a TypeError: there is no text, \<open>None\<close>.
\<close>

fun errorText :: "js_error \<Rightarrow> string option" where
  "errorText (JsError (Some m) str) = Some m"
| "errorText (JsError None str) = Some str"
| "errorText JsNullish = None"

text \<open>
  The declared configuration. The numbers of the language, \<open>'n\<close>, and its \<open>parseInt\<close>
  are parameters: the handlers store what \<open>parseInt\<close> returns and never compute with it.
\<close>

record 'n virtualDriveConfig =
  enabled :: bool
  mountPoint :: string
  cacheSizeInGi :: 'n

record 'n desktopConfig =
  virtualDriveConfig :: "'n virtualDriveConfig"

record mountState =
  mounted :: bool

record selectDirectoryResult =
  cancelled :: bool
  paths :: "string list"

text \<open>
  A cached query of the query layer (\<open>useQuery\<close>): before its first answer, with the
  value of a successful fetch, or failed with the value it had before, if any.
\<close>

datatype 'a query = Pending | Success 'a | Failed "'a option"

definition data :: "'a query \<Rightarrow> 'a option" where
  "data q = (case q of Pending \<Rightarrow> None | Success v \<Rightarrow> Some v | Failed d \<Rightarrow> d)"

definition isSuccess :: "'a query \<Rightarrow> bool" where
  "isSuccess q = (case q of Success v \<Rightarrow> True | _ \<Rightarrow> False)"

subsection \<open>The outside world\<close>

datatype native_call =
    IsVirtualDriveMounted
  | IsVirtualDriveActive
  | RestartVirtualDrive
  | StopVirtualDrive
  | VirtualDriveCleanupCache
  | VerifyUnixMountPath string
  | SelectDirectory
  | GetAvailableDrives
  | VirtualDriveCacheSize
  | VirtualDriveAvailableCache

datatype event =
    Call native_call
  | ShowConfirmDialog string
  | ConsoleError js_error
  | ErrorToast string
  | SetEnabling bool
  | SetDesktopConfig

text \<open>
  \<open>window.desktopAPI\<close>, \<open>showConfirmDialog\<close>, the translation function \<open>t\<close> and the
  built-in \<open>parseInt\<close>. A rejected promise is \<open>Inl\<close> of the value it rejects with.
\<close>

record ('w, 'n) env =
  api_platform :: string
  api_isVirtualDriveMounted :: "'w \<Rightarrow> (js_error + bool) \<times> 'w"
  api_isVirtualDriveActive :: "'w \<Rightarrow> (js_error + bool) \<times> 'w"
  api_restartVirtualDrive :: "'w \<Rightarrow> (js_error + unit) \<times> 'w"
  api_stopVirtualDrive :: "'w \<Rightarrow> (js_error + unit) \<times> 'w"
  api_virtualDriveCleanupCache :: "'w \<Rightarrow> (js_error + unit) \<times> 'w"
  api_verifyUnixMountPath :: "string \<Rightarrow> 'w \<Rightarrow> (js_error + bool) \<times> 'w"
  api_selectDirectory :: "bool \<Rightarrow> 'w \<Rightarrow> (js_error + selectDirectoryResult) \<times> 'w"
  api_getAvailableDrives :: "'w \<Rightarrow> (js_error + string list) \<times> 'w"
  api_virtualDriveCacheSize :: "'w \<Rightarrow> (js_error + int) \<times> 'w"
  api_virtualDriveAvailableCache :: "'w \<Rightarrow> (js_error + int) \<times> 'w"
  showConfirmDialog :: "'w \<Rightarrow> bool \<times> 'w"
  env_t :: "string \<Rightarrow> string"
  parseInt :: "string \<Rightarrow> 'n"

subsection \<open>Component state and asynchronous actions\<close>

record ('w, 'n) state =
  enabling :: bool
  desktopConfig :: "'n desktopConfig"
  isMountedQuery :: "mountState query"
  availableDrivesQuery :: "string list query"
  cacheSizeQuery :: "int query"
  availableCacheSizeQuery :: "int query"
  world :: 'w
  trace :: "event list"

type_synonym ('w, 'n, 'a) action =
  "('w, 'n) state \<Rightarrow> (js_error + 'a) \<times> ('w, 'n) state"

definition resolve :: "'a \<Rightarrow> ('w, 'n, 'a) action" where
  "resolve a s = (Inr a, s)"

definition throw :: "js_error \<Rightarrow> ('w, 'n, 'a) action" where
  "throw e s = (Inl e, s)"

text \<open>\<open>await m\<close> and go on with \<open>f\<close>; a rejection of \<open>m\<close> skips \<open>f\<close>.\<close>

definition andThen :: "('w, 'n, 'a) action \<Rightarrow> ('a \<Rightarrow> ('w, 'n, 'b) action) \<Rightarrow> ('w, 'n, 'b) action" where
  "andThen m f s = (case m s of (Inl e, s') \<Rightarrow> (Inl e, s') | (Inr a, s') \<Rightarrow> f a s')"

text \<open>A step that cannot reject.\<close>

definition perform :: "(('w, 'n) state \<Rightarrow> ('w, 'n) state) \<Rightarrow> ('w, 'n, unit) action" where
  "perform f s = (Inr (), f s)"

definition emit :: "event \<Rightarrow> ('w, 'n) state \<Rightarrow> ('w, 'n) state" where
  "emit ev s = s\<lparr>trace := trace s @ [ev]\<rparr>"

text \<open>A call of the native service: recorded, run on the world, its answer awaited.\<close>

definition native :: "native_call \<Rightarrow> ('w \<Rightarrow> (js_error + 'a) \<times> 'w) \<Rightarrow> ('w, 'n, 'a) action" where
  "native c f s = (case f (world s) of (r, w') \<Rightarrow> (r, emit (Call c) (s\<lparr>world := w'\<rparr>)))"

definition setEnabling :: "bool \<Rightarrow> ('w, 'n) state \<Rightarrow> ('w, 'n) state" where
  "setEnabling b s = emit (SetEnabling b) (s\<lparr>enabling := b\<rparr>)"

definition setDesktopConfig :: "('n desktopConfig \<Rightarrow> 'n desktopConfig) \<Rightarrow> ('w, 'n) state \<Rightarrow> ('w, 'n) state" where
  "setDesktopConfig f s = emit SetDesktopConfig (s\<lparr>desktopConfig := f (desktopConfig s)\<rparr>)"

definition errorToast :: "string \<Rightarrow> ('w, 'n) state \<Rightarrow> ('w, 'n) state" where
  "errorToast m s = emit (ErrorToast m) s"

definition consoleError :: "js_error \<Rightarrow> ('w, 'n) state \<Rightarrow> ('w, 'n) state" where
  "consoleError e s = emit (ConsoleError e) s"

text \<open>The events a run added to the trace.\<close>

definition newEvents :: "('w, 'n) state \<Rightarrow> ('w, 'n) state \<Rightarrow> event list" where
  "newEvents s s' = drop (length (trace s)) (trace s')"

subsection \<open>\<open>isVirtualDriveMounted\<close>\<close>

text \<open>
  \<open>Promise.all\<close> of the two native queries: both calls are issued before either answer
  is awaited, so both are in the trace even when the first rejects; the result rejects
  when either does (with the first rejection in array order).
\<close>

definition isVirtualDriveMounted :: "('w, 'n) env \<Rightarrow> ('w, 'n, mountState) action" where
  "isVirtualDriveMounted api s =
     (case native IsVirtualDriveMounted (api_isVirtualDriveMounted api) s of (r1, s1) \<Rightarrow>
      case native IsVirtualDriveActive (api_isVirtualDriveActive api) s1 of (r2, s2) \<Rightarrow>
        (case r1 of
           Inl e \<Rightarrow> (Inl e, s2)
         | Inr mountedSignal \<Rightarrow>
             (case r2 of
                Inl e \<Rightarrow> (Inl e, s2)
              | Inr active \<Rightarrow> (Inr \<lparr>mounted = mountedSignal \<and> active\<rparr>, s2))))"

subsection \<open>Refreshing the queries\<close>

text \<open>
  \<open>refetch()\<close> runs the query function once and stores what it gets; it resolves either
  way (it does not reject when the query function does), so a refresh is a step that
  cannot throw. Retrying a failed fetch is the query client's configuration and is not
  part of the component.
\<close>

definition settle :: "js_error + 'a \<Rightarrow> 'a query \<Rightarrow> 'a query" where
  "settle r q = (case r of Inr v \<Rightarrow> Success v | Inl e \<Rightarrow> Failed (data q))"

definition refetchIsMounted :: "('w, 'n) env \<Rightarrow> ('w, 'n) state \<Rightarrow> ('w, 'n) state" where
  "refetchIsMounted api s =
     (case isVirtualDriveMounted api s of (r, s') \<Rightarrow>
        s'\<lparr>isMountedQuery := settle r (isMountedQuery s')\<rparr>)"

definition refetchAvailableDrives :: "('w, 'n) env \<Rightarrow> ('w, 'n) state \<Rightarrow> ('w, 'n) state" where
  "refetchAvailableDrives api s =
     (case (if api_platform api = ''win32''
            then native GetAvailableDrives (api_getAvailableDrives api) s
            else resolve [] s) of (r, s') \<Rightarrow>
        s'\<lparr>availableDrivesQuery := settle r (availableDrivesQuery s')\<rparr>)"

definition refetchCacheSize :: "('w, 'n) env \<Rightarrow> ('w, 'n) state \<Rightarrow> ('w, 'n) state" where
  "refetchCacheSize api s =
     (case native VirtualDriveCacheSize (api_virtualDriveCacheSize api) s of (r, s') \<Rightarrow>
        s'\<lparr>cacheSizeQuery := settle r (cacheSizeQuery s')\<rparr>)"

definition refetchAvailableCacheSize :: "('w, 'n) env \<Rightarrow> ('w, 'n) state \<Rightarrow> ('w, 'n) state" where
  "refetchAvailableCacheSize api s =
     (case native VirtualDriveAvailableCache (api_virtualDriveAvailableCache api) s of (r, s') \<Rightarrow>
        s'\<lparr>availableCacheSizeQuery := settle r (availableCacheSizeQuery s')\<rparr>)"

subsection \<open>Cache steps\<close>

text \<open>
  Modelled from the spec: \<open>generateCacheSteps\<close> is imported from \<open>./utils\<close>, which is not
  among the sources. The spec gives its contract: the tiers of a fixed ladder that do not
  exceed the budget, never empty, and \<open>[10]\<close> when the budget is zero, negative or too
  small for the first rung. The ladder itself is an implementation choice and stays a
  parameter.
\<close>

definition generateCacheSteps :: "int list \<Rightarrow> int \<Rightarrow> int list" where
  "generateCacheSteps ladder availableBudgetGiB =
     (if availableBudgetGiB \<le> 0 then [10]
      else (case filter (\<lambda>tier. tier \<le> availableBudgetGiB) ladder of
              [] \<Rightarrow> [10]
            | tiers \<Rightarrow> tiers))"

text \<open>
  The memoised \<open>cacheSteps\<close> of the component, with the generator as a parameter.
  \<open>Math.floor (bytes / 1024^3)\<close> on an integer is \<open>div\<close>, which rounds down.
\<close>

definition cacheSteps :: "(int \<Rightarrow> int list) \<Rightarrow> int query \<Rightarrow> int list" where
  "cacheSteps generate availableCacheSize =
     (case availableCacheSize of
        Success bytes \<Rightarrow> generate (bytes div (1024 * 1024 * 1024))
      | _ \<Rightarrow> [10])"

subsection \<open>The handlers\<close>

text \<open>
  The block every handler shares: \<open>try { body } catch (e) { ... } finally
  { setEnabling(false) }\<close>. The catch block logs the caught value, shows its text, and
  declares the drive disabled. When the value has no text (\<open>null\<close>, \<open>undefined\<close>) the
  catch block itself throws after \<open>console.error(e)\<close>: nothing is shown and nothing is
  written. The finally block runs either way. Whether the promise the handler returns
  resolves or rejects is not part of the state.
\<close>

definition catchBlock :: "js_error \<Rightarrow> ('w, 'n) state \<Rightarrow> ('w, 'n) state" where
  "catchBlock e s =
     (case errorText e of
        None \<Rightarrow> consoleError e s
      | Some text \<Rightarrow>
          setDesktopConfig
            (\<lambda>prev. prev\<lparr>virtualDriveConfig := (virtualDriveConfig prev)\<lparr>enabled := False\<rparr>\<rparr>)
            (errorToast text (consoleError e s)))"

definition tryCatchFinally :: "('w, 'n, unit) action \<Rightarrow> ('w, 'n) state \<Rightarrow> ('w, 'n) state" where
  "tryCatchFinally body s =
     (case body s of
        (Inl e, s') \<Rightarrow> setEnabling False (catchBlock e s')
      | (Inr u, s') \<Rightarrow> setEnabling False s')"

definition confirm :: "('w, 'n) env \<Rightarrow> string \<Rightarrow> ('w, 'n) state \<Rightarrow> bool \<times> ('w, 'n) state" where
  "confirm api title s =
     (case showConfirmDialog api (world s) of
        (answer, w') \<Rightarrow> (answer, emit (ShowConfirmDialog title) (s\<lparr>world := w'\<rparr>)))"

text \<open>
  \<open>platform() !== "win32" && !(await verifyUnixMountPath(mountPoint))\<close>: on win32 the
  path is not verified at all.
\<close>

definition mountPathRejected :: "('w, 'n) env \<Rightarrow> string \<Rightarrow> ('w, 'n, bool) action" where
  "mountPathRejected api path =
     (if api_platform api \<noteq> ''win32''
      then andThen (native (VerifyUnixMountPath path) (api_verifyUnixMountPath api path))
             (\<lambda>usable. resolve (\<not> usable))
      else resolve False)"

definition invalidMountPoint :: "('w, 'n) env \<Rightarrow> ('w, 'n, unit) action" where
  "invalidMountPoint api =
     perform (errorToast (env_t api ''mounts.virtualDrive.errors.invalidMountPoint''))"

text \<open>
  \<open>if ((await isVirtualDriveMounted()).mounted) { await restartVirtualDrive(); if
  (!(await isVirtualDriveMounted()).mounted) throw ... }\<close>, as it stands in
  \<open>changeMountPoint\<close>, \<open>onDriveLetterChange\<close> and \<open>onCacheChange\<close>.
\<close>

definition restartAndVerify :: "('w, 'n) env \<Rightarrow> ('w, 'n, unit) action" where
  "restartAndVerify api =
     andThen (native RestartVirtualDrive (api_restartVirtualDrive api)) (\<lambda>u.
     andThen (isVirtualDriveMounted api) (\<lambda>after.
       if \<not> mounted after then throw (newError ''Could not start virtual drive.'')
       else resolve ()))"

definition remountIfMounted :: "('w, 'n) env \<Rightarrow> ('w, 'n, unit) action" where
  "remountIfMounted api =
     andThen (isVirtualDriveMounted api) (\<lambda>now.
       if mounted now then restartAndVerify api else resolve ())"

definition changeMountPoint_try :: "('w, 'n) env \<Rightarrow> string \<Rightarrow> ('w, 'n, unit) action" where
  "changeMountPoint_try api configuredMountPoint =
     andThen (native SelectDirectory (api_selectDirectory api False)) (\<lambda>selectDirectoryResult.
       if cancelled selectDirectoryResult \<or>
          (case paths selectDirectoryResult of [] \<Rightarrow> True | p # ps \<Rightarrow> p = [])
       then resolve ()
       else
         andThen (mountPathRejected api configuredMountPoint) (\<lambda>rejected.
           if rejected then invalidMountPoint api
           else
             andThen (remountIfMounted api) (\<lambda>u.
             andThen (perform (\<lambda>s. refetchAvailableDrives api (refetchIsMounted api s))) (\<lambda>u.
             perform (setDesktopConfig (\<lambda>prev.
               prev\<lparr>virtualDriveConfig :=
                 (virtualDriveConfig prev)\<lparr>mountPoint := hd (paths selectDirectoryResult)\<rparr>\<rparr>))))))"

definition changeMountPoint :: "('w, 'n) env \<Rightarrow> ('w, 'n) state \<Rightarrow> ('w, 'n) state" where
  "changeMountPoint api s =
     (if enabling s then s
      else tryCatchFinally
             (changeMountPoint_try api (mountPoint (virtualDriveConfig (desktopConfig s))))
             (setEnabling True s))"

definition onDriveLetterChange_try :: "('w, 'n) env \<Rightarrow> string \<Rightarrow> ('w, 'n, unit) action" where
  "onDriveLetterChange_try api letter =
     andThen (remountIfMounted api) (\<lambda>u.
     andThen (perform (\<lambda>s. refetchAvailableDrives api (refetchIsMounted api s))) (\<lambda>u.
     perform (setDesktopConfig (\<lambda>prev.
       prev\<lparr>virtualDriveConfig := (virtualDriveConfig prev)\<lparr>mountPoint := letter\<rparr>\<rparr>))))"

definition onDriveLetterChange :: "('w, 'n) env \<Rightarrow> string \<Rightarrow> ('w, 'n) state \<Rightarrow> ('w, 'n) state" where
  "onDriveLetterChange api letter s =
     (if enabling s then s
      else tryCatchFinally (onDriveLetterChange_try api letter) (setEnabling True s))"

definition onCheckedChange_try :: "('w, 'n) env \<Rightarrow> string \<Rightarrow> bool \<Rightarrow> ('w, 'n, unit) action" where
  "onCheckedChange_try api configuredMountPoint checked =
     andThen (mountPathRejected api configuredMountPoint) (\<lambda>rejected.
       if rejected then invalidMountPoint api
       else
         andThen (if checked then restartAndVerify api
                  else native StopVirtualDrive (api_stopVirtualDrive api)) (\<lambda>u.
         andThen (perform (\<lambda>s. refetchAvailableDrives api (refetchIsMounted api s))) (\<lambda>u.
         perform (setDesktopConfig (\<lambda>prev.
           prev\<lparr>virtualDriveConfig := (virtualDriveConfig prev)\<lparr>enabled := checked\<rparr>\<rparr>)))))"

definition onCheckedChange :: "('w, 'n) env \<Rightarrow> bool \<Rightarrow> ('w, 'n) state \<Rightarrow> ('w, 'n) state" where
  "onCheckedChange api checked s =
     (if enabling s then s
      else
        (case (if \<not> checked then confirm api ''mounts.virtualDrive.dialogs.disable.title'' s
               else (True, s)) of
           (confirmed, s0) \<Rightarrow>
             if \<not> checked \<and> \<not> confirmed then s0
             else tryCatchFinally
                    (onCheckedChange_try api
                       (mountPoint (virtualDriveConfig (desktopConfig s))) checked)
                    (setEnabling True s0)))"

definition onCacheChange_try :: "('w, 'n) env \<Rightarrow> string \<Rightarrow> string \<Rightarrow> ('w, 'n, unit) action" where
  "onCacheChange_try api configuredMountPoint sizeText =
     andThen (mountPathRejected api configuredMountPoint) (\<lambda>rejected.
       if rejected then invalidMountPoint api
       else
         andThen (remountIfMounted api) (\<lambda>u.
         andThen (perform (\<lambda>s. refetchAvailableCacheSize api
                                  (refetchAvailableDrives api (refetchIsMounted api s)))) (\<lambda>u.
         perform (setDesktopConfig (\<lambda>prev.
           prev\<lparr>virtualDriveConfig :=
             (virtualDriveConfig prev)\<lparr>cacheSizeInGi := parseInt api sizeText\<rparr>\<rparr>)))))"

definition onCacheChange :: "('w, 'n) env \<Rightarrow> string \<Rightarrow> ('w, 'n) state \<Rightarrow> ('w, 'n) state" where
  "onCacheChange api sizeText s =
     (if enabling s then s
      else tryCatchFinally
             (onCacheChange_try api (mountPoint (virtualDriveConfig (desktopConfig s))) sizeText)
             (setEnabling True s))"

definition cleanupCache_try :: "('w, 'n) env \<Rightarrow> ('w, 'n, unit) action" where
  "cleanupCache_try api =
     andThen (native StopVirtualDrive (api_stopVirtualDrive api)) (\<lambda>u.
     andThen (native VirtualDriveCleanupCache (api_virtualDriveCleanupCache api)) (\<lambda>u.
     andThen (isVirtualDriveMounted api) (\<lambda>now.
     andThen (if mounted now then native RestartVirtualDrive (api_restartVirtualDrive api)
              else resolve ()) (\<lambda>u.
     perform (\<lambda>s. refetchAvailableDrives api (refetchIsMounted api (refetchCacheSize api s)))))))"

definition cleanupCache :: "('w, 'n) env \<Rightarrow> ('w, 'n) state \<Rightarrow> ('w, 'n) state" where
  "cleanupCache api s =
     (if enabling s then s
      else
        (case confirm api ''mounts.virtualDrive.dialogs.cleanupCache.title'' s of
           (confirmed, s0) \<Rightarrow>
             if \<not> confirmed then s0
             else tryCatchFinally (cleanupCache_try api) (setEnabling True s0)))"

text \<open>The five mutating transitions and the handler of each.\<close>

datatype transition =
    Toggle bool
  | ChangeMountPoint
  | ChangeDriveLetter string
  | ChangeCacheSize string
  | PurgeCache

fun handler :: "('w, 'n) env \<Rightarrow> transition \<Rightarrow> ('w, 'n) state \<Rightarrow> ('w, 'n) state" where
  "handler api (Toggle checked) = onCheckedChange api checked"
| "handler api ChangeMountPoint = changeMountPoint api"
| "handler api (ChangeDriveLetter letter) = onDriveLetterChange api letter"
| "handler api (ChangeCacheSize sizeText) = onCacheChange api sizeText"
| "handler api PurgeCache = cleanupCache api"

text \<open>
  The parts of a handler by name: the dialog it asks first (if any), the state in which
  its try block starts (if the handler gets that far: guard free, dialog confirmed, guard
  taken), and its try block.
\<close>

fun confirmationTitle :: "transition \<Rightarrow> string option" where
  "confirmationTitle (Toggle checked) =
     (if checked then None else Some ''mounts.virtualDrive.dialogs.disable.title'')"
| "confirmationTitle PurgeCache = Some ''mounts.virtualDrive.dialogs.cleanupCache.title''"
| "confirmationTitle t = None"

definition atTry :: "('w, 'n) env \<Rightarrow> transition \<Rightarrow> ('w, 'n) state \<Rightarrow> ('w, 'n) state option" where
  "atTry api t s =
     (if enabling s then None
      else
        (case confirmationTitle t of
           None \<Rightarrow> Some (setEnabling True s)
         | Some title \<Rightarrow>
             (case confirm api title s of
                (confirmed, s0) \<Rightarrow> if confirmed then Some (setEnabling True s0) else None)))"

fun tryBlock :: "('w, 'n) env \<Rightarrow> string \<Rightarrow> transition \<Rightarrow> ('w, 'n, unit) action" where
  "tryBlock api configuredMountPoint (Toggle checked) =
     onCheckedChange_try api configuredMountPoint checked"
| "tryBlock api configuredMountPoint ChangeMountPoint =
     changeMountPoint_try api configuredMountPoint"
| "tryBlock api configuredMountPoint (ChangeDriveLetter letter) =
     onDriveLetterChange_try api letter"
| "tryBlock api configuredMountPoint (ChangeCacheSize sizeText) =
     onCacheChange_try api configuredMountPoint sizeText"
| "tryBlock api configuredMountPoint PurgeCache = cleanupCache_try api"

subsection \<open>A native service to run the handlers on\<close>

text \<open>
  A small deterministic native service for running the handlers on concrete inputs: the
  mount is present and active or neither; \<open>stopVirtualDrive\<close> unmounts;
  \<open>restartVirtualDrive\<close> mounts, rejects with an error, rejects with \<open>undefined\<close>, or
  reports success without mounting, as the world says; \<open>virtualDriveCleanupCache\<close>
  resolves or rejects as the world says; the dialog, the picker and the path check answer
  what the world holds. Its numbers are integers and \<open>NaN\<close>; its
  \<open>parseInt\<close> reads a text of one to fifteen decimal digits as the built-in does and
  answers \<open>NaN\<close> to anything else.
\<close>

datatype restartMode = Mounts | Rejects | ReportsSuccessOnly | RejectsWithUndefined

datatype js_number = JsInt int | JsNaN

definition isDigit :: "char \<Rightarrow> bool" where
  "isDigit c = (48 \<le> (of_char c :: nat) \<and> (of_char c :: nat) \<le> 57)"

definition simParseInt :: "string \<Rightarrow> js_number" where
  "simParseInt txt =
     (if txt \<noteq> [] \<and> length txt \<le> 15 \<and> list_all isDigit txt
      then JsInt (int (foldl (\<lambda>acc c. acc * 10 + (of_char c - 48)) 0 txt))
      else JsNaN)"

record simWorld =
  simPresent :: bool
  simActive :: bool
  simRestart :: restartMode
  simConfirm :: bool
  simPick :: selectDirectoryResult
  simUsable :: "string list"
  simPurgeRejects :: bool

definition simService :: "string \<Rightarrow> (simWorld, js_number) env" where
  "simService platform =
     \<lparr>api_platform = platform,
      api_isVirtualDriveMounted = (\<lambda>w. (Inr (simPresent w), w)),
      api_isVirtualDriveActive = (\<lambda>w. (Inr (simActive w), w)),
      api_restartVirtualDrive = (\<lambda>w.
        case simRestart w of
          Mounts \<Rightarrow> (Inr (), w\<lparr>simPresent := True, simActive := True\<rparr>)
        | Rejects \<Rightarrow> (Inl (newError ''mount failed''), w\<lparr>simPresent := False, simActive := False\<rparr>)
        | ReportsSuccessOnly \<Rightarrow> (Inr (), w\<lparr>simPresent := False, simActive := False\<rparr>)
        | RejectsWithUndefined \<Rightarrow>
            (Inl JsNullish, w\<lparr>simPresent := False, simActive := False\<rparr>)),
      api_stopVirtualDrive = (\<lambda>w. (Inr (), w\<lparr>simPresent := False, simActive := False\<rparr>)),
      api_virtualDriveCleanupCache = (\<lambda>w.
        if simPurgeRejects w then (Inl (newError ''purge failed''), w) else (Inr (), w)),
      api_verifyUnixMountPath = (\<lambda>path w. (Inr (path \<in> set (simUsable w)), w)),
      api_selectDirectory = (\<lambda>multiple w. (Inr (simPick w), w)),
      api_getAvailableDrives = (\<lambda>w. (Inr [], w)),
      api_virtualDriveCacheSize = (\<lambda>w. (Inr 0, w)),
      api_virtualDriveAvailableCache = (\<lambda>w. (Inr 0, w)),
      showConfirmDialog = (\<lambda>w. (simConfirm w, w)),
      env_t = (\<lambda>key. key),
      parseInt = simParseInt\<rparr>"

definition simWorld0 :: "bool \<Rightarrow> restartMode \<Rightarrow> simWorld" where
  "simWorld0 isMounted mode =
     \<lparr>simPresent = isMounted, simActive = isMounted, simRestart = mode, simConfirm = True,
      simPick = \<lparr>cancelled = False, paths = [''/new'']\<rparr>, simUsable = [''/old''],
      simPurgeRejects = False\<rparr>"

definition idle :: "'w \<Rightarrow> ('w, js_number) state" where
  "idle w =
     \<lparr>enabling = False,
      desktopConfig = \<lparr>virtualDriveConfig =
        \<lparr>enabled = True, mountPoint = ''/old'', cacheSizeInGi = JsInt 10\<rparr>\<rparr>,
      isMountedQuery = Pending,
      availableDrivesQuery = Pending,
      cacheSizeQuery = Pending,
      availableCacheSizeQuery = Pending,
      world = w,
      trace = []\<rparr>"

text \<open>
  A state the component renders its controls in: the four queries have answered, the
  mount query with the given flag, which the native service may have outrun since.
\<close>

definition shown :: "bool \<Rightarrow> 'w \<Rightarrow> ('w, js_number) state" where
  "shown observedMounted w =
     (idle w)\<lparr>isMountedQuery := Success \<lparr>mounted = observedMounted\<rparr>,
              availableDrivesQuery := Success [],
              cacheSizeQuery := Success 1048576,
              availableCacheSizeQuery := Success 26843545600\<rparr>"

subsection \<open>What a try block may do\<close>

text \<open>
  Two invariants of the actions the handlers are built from. A tidy action leaves the
  declared configuration alone and logs no error to the console; a fail-safe action logs
  no error to the console and, when it rejects, has left the declared configuration as it
  found it.
\<close>

definition tidy :: "('w, 'n, 'a) action \<Rightarrow> bool" where
  "tidy m \<longleftrightarrow>
     (\<forall>s. desktopConfig (snd (m s)) = desktopConfig s \<and>
          (\<exists>evs. trace (snd (m s)) = trace s @ evs \<and> (\<forall>e. ConsoleError e \<notin> set evs)))"

definition tidyStep :: "(('w, 'n) state \<Rightarrow> ('w, 'n) state) \<Rightarrow> bool" where
  "tidyStep f \<longleftrightarrow>
     (\<forall>s. desktopConfig (f s) = desktopConfig s \<and>
          (\<exists>evs. trace (f s) = trace s @ evs \<and> (\<forall>e. ConsoleError e \<notin> set evs)))"

definition failSafe :: "('w, 'n, 'a) action \<Rightarrow> bool" where
  "failSafe m \<longleftrightarrow>
     (\<forall>s. (isl (fst (m s)) \<longrightarrow> desktopConfig (snd (m s)) = desktopConfig s) \<and>
          (\<exists>evs. trace (snd (m s)) = trace s @ evs \<and> (\<forall>e. ConsoleError e \<notin> set evs)))"

section \<open>Properties\<close>

subsection \<open>Supporting facts\<close>

lemma emit_fields [simp]:
  "trace (emit ev s) = trace s @ [ev]"
  "desktopConfig (emit ev s) = desktopConfig s"
  "enabling (emit ev s) = enabling s"
  "world (emit ev s) = world s"
  "isMountedQuery (emit ev s) = isMountedQuery s"
  by (simp_all add: emit_def)

lemma setEnabling_fields [simp]:
  "trace (setEnabling b s) = trace s @ [SetEnabling b]"
  "desktopConfig (setEnabling b s) = desktopConfig s"
  "enabling (setEnabling b s) = b"
  "world (setEnabling b s) = world s"
  by (simp_all add: setEnabling_def)

lemma catchBlock_fields [simp]:
  "enabling (catchBlock e s) = enabling s"
  "world (catchBlock e s) = world s"
  by (simp_all add: catchBlock_def setDesktopConfig_def errorToast_def consoleError_def
        split: option.splits)

lemma catchBlock_text:
  assumes "errorText e = Some text"
  shows "trace (catchBlock e s) = trace s @ [ConsoleError e, ErrorToast text, SetDesktopConfig]"
    and "enabled (virtualDriveConfig (desktopConfig (catchBlock e s))) = False"
    and "mountPoint (virtualDriveConfig (desktopConfig (catchBlock e s))) =
         mountPoint (virtualDriveConfig (desktopConfig s))"
    and "cacheSizeInGi (virtualDriveConfig (desktopConfig (catchBlock e s))) =
         cacheSizeInGi (virtualDriveConfig (desktopConfig s))"
  using assms
  by (simp_all add: catchBlock_def setDesktopConfig_def errorToast_def consoleError_def)

lemma catchBlock_logs: "ConsoleError e \<in> set (trace (catchBlock e s))"
  by (simp add: catchBlock_def setDesktopConfig_def errorToast_def consoleError_def
        split: option.splits)

lemma tryCatchFinally_releases:
  "enabling (tryCatchFinally body s) = False"
  "last (trace (tryCatchFinally body s)) = SetEnabling False"
  by (simp_all add: tryCatchFinally_def split: prod.splits sum.splits)

lemma newEvents_append [simp]: "trace s' = trace s @ evs \<Longrightarrow> newEvents s s' = evs"
  by (simp add: newEvents_def)

lemma newEvents_same [simp]: "newEvents s s = []"
  by (simp add: newEvents_def)

lemma confirm_fields:
  "trace (snd (confirm api title s)) = trace s @ [ShowConfirmDialog title]"
  "enabling (snd (confirm api title s)) = enabling s"
  "desktopConfig (snd (confirm api title s)) = desktopConfig s"
  by (simp_all add: confirm_def split: prod.splits)

lemma tidy_resolve [intro!]: "tidy (resolve a)"
  by (simp add: tidy_def resolve_def)

lemma tidy_throw [intro!]: "tidy (throw e)"
  by (simp add: tidy_def throw_def)

lemma tidy_native [intro!]: "tidy (native c f)"
  by (simp add: tidy_def native_def split: prod.splits)

lemma tidy_perform [intro!]: "tidyStep f \<Longrightarrow> tidy (perform f)"
  by (simp add: tidy_def tidyStep_def perform_def)

lemma tidy_andThen [intro!]:
  assumes "tidy m" and "\<And>a. tidy (f a)"
  shows "tidy (andThen m f)"
  unfolding tidy_def
proof (intro allI)
  fix s
  obtain r s1 where ms: "m s = (r, s1)" by (cases "m s")
  from assms(1) ms obtain evs where
    c1: "desktopConfig s1 = desktopConfig s" and
    t1: "trace s1 = trace s @ evs" and q1: "\<forall>e. ConsoleError e \<notin> set evs"
    unfolding tidy_def by (metis snd_conv)
  show "desktopConfig (snd (andThen m f s)) = desktopConfig s \<and>
        (\<exists>evs. trace (snd (andThen m f s)) = trace s @ evs \<and> (\<forall>e. ConsoleError e \<notin> set evs))"
  proof (cases r)
    case (Inl e)
    with ms c1 t1 q1 show ?thesis by (auto simp: andThen_def)
  next
    case (Inr a)
    from assms(2) [of a] obtain evs' where
      c2: "desktopConfig (snd (f a s1)) = desktopConfig s1" and
      t2: "trace (snd (f a s1)) = trace s1 @ evs'" and q2: "\<forall>e. ConsoleError e \<notin> set evs'"
      unfolding tidy_def by blast
    have "trace (snd (f a s1)) = trace s @ (evs @ evs')" using t1 t2 by simp
    moreover have "\<forall>e. ConsoleError e \<notin> set (evs @ evs')" using q1 q2 by simp
    ultimately show ?thesis using Inr ms c1 c2 by (auto simp: andThen_def)
  qed
qed

lemma tidy_if [intro!]: "tidy m \<Longrightarrow> tidy n \<Longrightarrow> tidy (if b then m else n)"
  by simp

lemma tidyStep_comp:
  assumes "tidyStep f" and "tidyStep g"
  shows "tidyStep (\<lambda>s. g (f s))"
  unfolding tidyStep_def
proof (intro allI)
  fix s
  from assms(1) obtain evs where
    c1: "desktopConfig (f s) = desktopConfig s" and
    t1: "trace (f s) = trace s @ evs" and q1: "\<forall>e. ConsoleError e \<notin> set evs"
    unfolding tidyStep_def by blast
  from assms(2) obtain evs' where
    c2: "desktopConfig (g (f s)) = desktopConfig (f s)" and
    t2: "trace (g (f s)) = trace (f s) @ evs'" and q2: "\<forall>e. ConsoleError e \<notin> set evs'"
    unfolding tidyStep_def by blast
  have "trace (g (f s)) = trace s @ (evs @ evs')" using t1 t2 by simp
  moreover have "\<forall>e. ConsoleError e \<notin> set (evs @ evs')" using q1 q2 by simp
  ultimately show "desktopConfig (g (f s)) = desktopConfig s \<and>
        (\<exists>evs. trace (g (f s)) = trace s @ evs \<and> (\<forall>e. ConsoleError e \<notin> set evs))"
    using c1 c2 by auto
qed


lemma tidyStep_errorToast: "tidyStep (errorToast m)"
  by (simp add: tidyStep_def errorToast_def)

lemma tidy_isVirtualDriveMounted [intro!]: "tidy (isVirtualDriveMounted api)"
  by (simp add: tidy_def isVirtualDriveMounted_def native_def split: prod.splits sum.splits)

lemma tidyStep_refetchIsMounted: "tidyStep (refetchIsMounted api)"
proof -
  have "refetchIsMounted api s =
      (snd (isVirtualDriveMounted api s))\<lparr>isMountedQuery :=
         settle (fst (isVirtualDriveMounted api s))
           (isMountedQuery (snd (isVirtualDriveMounted api s)))\<rparr>" for s
    by (simp add: refetchIsMounted_def split: prod.splits)
  then show ?thesis
    using tidy_isVirtualDriveMounted [of api] by (simp add: tidy_def tidyStep_def)
qed

lemma tidyStep_refetchAvailableDrives: "tidyStep (refetchAvailableDrives api)"
  by (simp add: tidyStep_def refetchAvailableDrives_def native_def resolve_def split: prod.splits)

lemma tidyStep_refetchCacheSize: "tidyStep (refetchCacheSize api)"
  by (simp add: tidyStep_def refetchCacheSize_def native_def split: prod.splits)

lemma tidyStep_refetchAvailableCacheSize: "tidyStep (refetchAvailableCacheSize api)"
  by (simp add: tidyStep_def refetchAvailableCacheSize_def native_def split: prod.splits)

lemma tidyStep_refetch:
  "tidyStep (\<lambda>s. refetchAvailableDrives api (refetchIsMounted api s))"
  "tidyStep (\<lambda>s. refetchAvailableCacheSize api
                    (refetchAvailableDrives api (refetchIsMounted api s)))"
  "tidyStep (\<lambda>s. refetchAvailableDrives api (refetchIsMounted api (refetchCacheSize api s)))"
proof -
  show both: "tidyStep (\<lambda>s. refetchAvailableDrives api (refetchIsMounted api s))"
    by (rule tidyStep_comp [OF tidyStep_refetchIsMounted tidyStep_refetchAvailableDrives])
  show "tidyStep (\<lambda>s. refetchAvailableCacheSize api
                    (refetchAvailableDrives api (refetchIsMounted api s)))"
    by (rule tidyStep_comp [OF both tidyStep_refetchAvailableCacheSize])
  show "tidyStep (\<lambda>s. refetchAvailableDrives api (refetchIsMounted api (refetchCacheSize api s)))"
    by (rule tidyStep_comp [OF tidyStep_refetchCacheSize both])
qed

lemma tidy_mountPathRejected [intro!]: "tidy (mountPathRejected api path)"
  unfolding mountPathRejected_def by blast

lemma tidy_invalidMountPoint [intro!]: "tidy (invalidMountPoint api)"
  unfolding invalidMountPoint_def by (intro tidy_perform tidyStep_errorToast)

lemma tidy_restartAndVerify [intro!]: "tidy (restartAndVerify api)"
  unfolding restartAndVerify_def by blast

lemma tidy_remountIfMounted [intro!]: "tidy (remountIfMounted api)"
  unfolding remountIfMounted_def by blast

lemma failSafe_tidy: "tidy m \<Longrightarrow> failSafe m"
  by (simp add: tidy_def failSafe_def)

lemma failSafe_setDesktopConfig: "failSafe (perform (setDesktopConfig g))"
  by (simp add: failSafe_def perform_def setDesktopConfig_def)

lemma failSafe_andThen:
  assumes "tidy m" and "\<And>a. failSafe (f a)"
  shows "failSafe (andThen m f)"
  unfolding failSafe_def
proof (intro allI)
  fix s
  obtain r s1 where ms: "m s = (r, s1)" by (cases "m s")
  from assms(1) ms obtain evs where
    c1: "desktopConfig s1 = desktopConfig s" and
    t1: "trace s1 = trace s @ evs" and q1: "\<forall>e. ConsoleError e \<notin> set evs"
    unfolding tidy_def by (metis snd_conv)
  show "(isl (fst (andThen m f s)) \<longrightarrow> desktopConfig (snd (andThen m f s)) = desktopConfig s) \<and>
        (\<exists>evs. trace (snd (andThen m f s)) = trace s @ evs \<and> (\<forall>e. ConsoleError e \<notin> set evs))"
  proof (cases r)
    case (Inl e)
    with ms c1 t1 q1 show ?thesis by (auto simp: andThen_def)
  next
    case (Inr a)
    from assms(2) [of a] obtain evs' where
      c2: "isl (fst (f a s1)) \<longrightarrow> desktopConfig (snd (f a s1)) = desktopConfig s1" and
      t2: "trace (snd (f a s1)) = trace s1 @ evs'" and q2: "\<forall>e. ConsoleError e \<notin> set evs'"
      unfolding failSafe_def by blast
    have "trace (snd (f a s1)) = trace s @ (evs @ evs')" using t1 t2 by simp
    moreover have "\<forall>e. ConsoleError e \<notin> set (evs @ evs')" using q1 q2 by simp
    ultimately show ?thesis using Inr ms c1 c2 by (auto simp: andThen_def)
  qed
qed

lemma failSafe_if: "failSafe m \<Longrightarrow> failSafe n \<Longrightarrow> failSafe (if b then m else n)"
  by simp

lemma failSafe_onCheckedChange_try: "failSafe (onCheckedChange_try api path checked)"
  unfolding onCheckedChange_try_def
  by (intro failSafe_andThen failSafe_if failSafe_setDesktopConfig failSafe_tidy
        tidy_perform tidyStep_refetch tidy_if tidy_mountPathRejected
        tidy_invalidMountPoint tidy_restartAndVerify tidy_native)

lemma failSafe_onCacheChange_try: "failSafe (onCacheChange_try api path sizeText)"
  unfolding onCacheChange_try_def
  by (intro failSafe_andThen failSafe_if failSafe_setDesktopConfig failSafe_tidy
        tidy_perform tidyStep_refetch tidy_mountPathRejected
        tidy_invalidMountPoint tidy_remountIfMounted)

lemma failSafe_onDriveLetterChange_try: "failSafe (onDriveLetterChange_try api letter)"
  unfolding onDriveLetterChange_try_def
  by (intro failSafe_andThen failSafe_setDesktopConfig
        tidy_perform tidyStep_refetch tidy_remountIfMounted)

lemma failSafe_changeMountPoint_try: "failSafe (changeMountPoint_try api path)"
  unfolding changeMountPoint_try_def
  by (intro failSafe_andThen failSafe_if failSafe_setDesktopConfig failSafe_tidy
        tidy_perform tidyStep_refetch tidy_mountPathRejected
        tidy_invalidMountPoint tidy_remountIfMounted tidy_native tidy_resolve)

lemma failSafe_cleanupCache_try: "failSafe (cleanupCache_try api)"
  unfolding cleanupCache_try_def
  by (intro failSafe_tidy tidy_andThen tidy_if tidy_native tidy_resolve
        tidy_isVirtualDriveMounted tidy_perform tidyStep_refetch)

lemmas step_defs =
  andThen_def native_def emit_def resolve_def throw_def perform_def setEnabling_def
  setDesktopConfig_def errorToast_def consoleError_def tryCatchFinally_def catchBlock_def
  confirm_def isVirtualDriveMounted_def mountPathRejected_def invalidMountPoint_def
  restartAndVerify_def remountIfMounted_def

lemma thrown_is_logged:
  "fst (body s) = Inl e \<Longrightarrow> ConsoleError e \<in> set (trace (tryCatchFinally body s))"
  using catchBlock_logs by (auto simp: tryCatchFinally_def split: prod.splits)

lemma native_rejects: "f (world s) = (Inl e, w') \<Longrightarrow> fst (native c f s) = Inl e"
  by (simp add: native_def)

lemma andThen_rejects: "fst (m s) = Inl e \<Longrightarrow> fst (andThen m f s) = Inl e"
  by (auto simp: andThen_def split: prod.splits)

lemma isVirtualDriveMounted_rejects:
  "api_isVirtualDriveMounted api (world s) = (Inl e, w') \<Longrightarrow>
   fst (isVirtualDriveMounted api s) = Inl e"
  by (simp add: isVirtualDriveMounted_def native_def split: prod.splits)

lemma restartAndVerify_rejects:
  "api_restartVirtualDrive api (world s) = (Inl e, w') \<Longrightarrow>
   fst (restartAndVerify api s) = Inl e"
  by (simp add: restartAndVerify_def andThen_rejects native_rejects)

lemma onDriveLetterChange_try_rejects:
  "api_isVirtualDriveMounted api (world s) = (Inl e, w') \<Longrightarrow>
   fst (onDriveLetterChange_try api letter s) = Inl e"
  by (simp add: onDriveLetterChange_try_def remountIfMounted_def andThen_rejects
        isVirtualDriveMounted_rejects)

lemma cleanupCache_try_rejects:
  "api_stopVirtualDrive api (world s) = (Inl e, w') \<Longrightarrow> fst (cleanupCache_try api s) = Inl e"
  by (simp add: cleanupCache_try_def andThen_rejects native_rejects)

lemma guarded_failure:
  assumes fs: "failSafe body"
    and t0: "trace s1 = trace s @ pre"
    and c0: "desktopConfig s1 = desktopConfig s"
    and thrown: "fst (body s1) = Inl e"
    and readable: "errorText e = Some text"
  shows "ConsoleError e \<in> set (newEvents s (tryCatchFinally body s1)) \<and>
         ErrorToast text \<in> set (newEvents s (tryCatchFinally body s1)) \<and>
         \<not> enabled (virtualDriveConfig (desktopConfig (tryCatchFinally body s1))) \<and>
         mountPoint (virtualDriveConfig (desktopConfig (tryCatchFinally body s1))) =
           mountPoint (virtualDriveConfig (desktopConfig s)) \<and>
         cacheSizeInGi (virtualDriveConfig (desktopConfig (tryCatchFinally body s1))) =
           cacheSizeInGi (virtualDriveConfig (desktopConfig s))"
proof -
  obtain s2 where b: "body s1 = (Inl e, s2)"
    using thrown by (cases "body s1") simp
  from fs b obtain evs where
    c2: "desktopConfig s2 = desktopConfig s1" and t2: "trace s2 = trace s1 @ evs"
    unfolding failSafe_def by (metis fst_conv snd_conv sum.disc(1))
  have fin: "tryCatchFinally body s1 = setEnabling False (catchBlock e s2)"
    using b by (simp add: tryCatchFinally_def)
  have "trace (tryCatchFinally body s1) =
      trace s @ (pre @ evs @
        [ConsoleError e, ErrorToast text, SetDesktopConfig, SetEnabling False])"
    using t0 t2 by (simp add: fin catchBlock_text [OF readable])
  then have ne: "newEvents s (tryCatchFinally body s1) =
      pre @ evs @ [ConsoleError e, ErrorToast text, SetDesktopConfig, SetEnabling False]"
    by (rule newEvents_append)
  show ?thesis
    using c0 c2 unfolding ne by (simp add: fin catchBlock_text [OF readable])
qed

lemma failSafe_tryBlock: "failSafe (tryBlock api path t)"
  by (cases t)
     (simp_all add: failSafe_onCheckedChange_try failSafe_changeMountPoint_try
        failSafe_onDriveLetterChange_try failSafe_onCacheChange_try failSafe_cleanupCache_try)

lemma handler_from_atTry:
  assumes "atTry api t s = Some s1"
  shows "handler api t s =
           tryCatchFinally (tryBlock api (mountPoint (virtualDriveConfig (desktopConfig s))) t) s1"
    and "\<exists>pre. trace s1 = trace s @ pre"
    and "desktopConfig s1 = desktopConfig s"
proof -
  have "handler api t s =
           tryCatchFinally (tryBlock api (mountPoint (virtualDriveConfig (desktopConfig s))) t) s1
        \<and> (\<exists>pre. trace s1 = trace s @ pre) \<and> desktopConfig s1 = desktopConfig s"
  proof (cases t)
    case (Toggle checked)
    with assms confirm_fields [of api "''mounts.virtualDrive.dialogs.disable.title''" s]
    show ?thesis
      by (cases checked)
         (auto simp: atTry_def onCheckedChange_def split: if_splits prod.splits)
  next
    case ChangeMountPoint
    with assms show ?thesis
      by (auto simp: atTry_def changeMountPoint_def split: if_splits)
  next
    case (ChangeDriveLetter letter)
    with assms show ?thesis
      by (auto simp: atTry_def onDriveLetterChange_def split: if_splits)
  next
    case (ChangeCacheSize sizeText)
    with assms show ?thesis
      by (auto simp: atTry_def onCacheChange_def split: if_splits)
  next
    case PurgeCache
    with assms confirm_fields [of api "''mounts.virtualDrive.dialogs.cleanupCache.title''" s]
    show ?thesis
      by (auto simp: atTry_def cleanupCache_def split: if_splits prod.splits)
  qed
  then show "handler api t s =
           tryCatchFinally (tryBlock api (mountPoint (virtualDriveConfig (desktopConfig s))) t) s1"
    and "\<exists>pre. trace s1 = trace s @ pre"
    and "desktopConfig s1 = desktopConfig s"
    by simp_all
qed

lemma isVirtualDriveMounted_fields:
  "trace (snd (isVirtualDriveMounted api s)) =
     trace s @ [Call IsVirtualDriveMounted, Call IsVirtualDriveActive]"
  "desktopConfig (snd (isVirtualDriveMounted api s)) = desktopConfig s"
  by (simp_all add: isVirtualDriveMounted_def native_def split: prod.splits sum.splits)

lemma refetchIsMounted_fields [simp]:
  "trace (refetchIsMounted api s) =
     trace s @ [Call IsVirtualDriveMounted, Call IsVirtualDriveActive]"
  "desktopConfig (refetchIsMounted api s) = desktopConfig s"
  using isVirtualDriveMounted_fields [of api s]
  by (auto simp: refetchIsMounted_def split: prod.splits)

lemma refetchAvailableDrives_fields [simp]:
  "trace (refetchAvailableDrives api s) =
     trace s @ (if api_platform api = ''win32'' then [Call GetAvailableDrives] else [])"
  "desktopConfig (refetchAvailableDrives api s) = desktopConfig s"
  by (simp_all add: refetchAvailableDrives_def native_def resolve_def split: prod.splits)

lemma refetchCacheSize_fields [simp]:
  "trace (refetchCacheSize api s) = trace s @ [Call VirtualDriveCacheSize]"
  "desktopConfig (refetchCacheSize api s) = desktopConfig s"
  by (simp_all add: refetchCacheSize_def native_def split: prod.splits)

lemma refetchAvailableCacheSize_fields [simp]:
  "trace (refetchAvailableCacheSize api s) = trace s @ [Call VirtualDriveAvailableCache]"
  "desktopConfig (refetchAvailableCacheSize api s) = desktopConfig s"
  by (simp_all add: refetchAvailableCacheSize_def native_def split: prod.splits)

subsection \<open>The mounted flag\<close>

text \<open>
  C8. \<open>isVirtualDriveMounted\<close> resolves to \<open>mounted = m\<close> exactly when the two native
  signals, presence and then activity, both answer and \<open>m\<close> is their conjunction; so the
  flag is true exactly when both signals are true, and false when either is false.
\<close>

theorem isVirtualDriveMounted_conjunction:
  "fst (isVirtualDriveMounted api s) = Inr \<lparr>mounted = m\<rparr> \<longleftrightarrow>
     (\<exists>present active w1.
        api_isVirtualDriveMounted api (world s) = (Inr present, w1) \<and>
        fst (api_isVirtualDriveActive api w1) = Inr active \<and>
        m = (present \<and> active))"
  by (auto simp: isVirtualDriveMounted_def native_def emit_def split: prod.splits sum.splits)

subsection \<open>The single-flight guard\<close>

text \<open>
  C1. For each of the five mutating transitions: when \<open>enabling\<close> is already set, the
  handler returns the state it was given (no native call, no configuration write, no
  refresh, nothing added to the trace); a handler entered with the guard free returns
  with the guard free; and whenever a run has acquired the guard (\<open>setEnabling(true)\<close>
  is among its events), the guard is clear when the handler returns and clearing it was
  the last thing done, whether the try block resolved or threw.
\<close>

theorem single_flight_guard:
  "(enabling s \<longrightarrow> handler api t s = s) \<and>
   (\<not> enabling s \<longrightarrow> \<not> enabling (handler api t s)) \<and>
   (SetEnabling True \<in> set (newEvents s (handler api t s)) \<longrightarrow>
      \<not> enabling (handler api t s) \<and> last (trace (handler api t s)) = SetEnabling False)"
proof (cases t)
  case (Toggle checked)
  show ?thesis
    using confirm_fields [of api "''mounts.virtualDrive.dialogs.disable.title''" s]
    by (auto simp: Toggle onCheckedChange_def tryCatchFinally_releases split: prod.splits)
next
  case ChangeMountPoint
  then show ?thesis
    by (simp add: changeMountPoint_def tryCatchFinally_releases)
next
  case (ChangeDriveLetter letter)
  then show ?thesis
    by (simp add: onDriveLetterChange_def tryCatchFinally_releases)
next
  case (ChangeCacheSize sizeText)
  then show ?thesis
    by (simp add: onCacheChange_def tryCatchFinally_releases)
next
  case PurgeCache
  show ?thesis
    using confirm_fields [of api "''mounts.virtualDrive.dialogs.cleanupCache.title''" s]
    by (auto simp: PurgeCache cleanupCache_def tryCatchFinally_releases split: prod.splits)
qed

theorem single_flight_guard_witness:
  "enabling ((idle (simWorld0 True Mounts))\<lparr>enabling := True\<rparr>) \<and>
   handler (simService ''linux'') PurgeCache ((idle (simWorld0 True Mounts))\<lparr>enabling := True\<rparr>) =
     (idle (simWorld0 True Mounts))\<lparr>enabling := True\<rparr> \<and>
   \<not> enabling (idle (simWorld0 False Rejects)) \<and>
   SetEnabling True \<in> set (newEvents (idle (simWorld0 False Rejects))
      (handler (simService ''linux'') (Toggle True) (idle (simWorld0 False Rejects)))) \<and>
   \<not> enabling (handler (simService ''linux'') (Toggle True) (idle (simWorld0 False Rejects))) \<and>
   last (trace (handler (simService ''linux'') (Toggle True) (idle (simWorld0 False Rejects)))) =
     SetEnabling False"
proof -
  have a: "enabling ((idle (simWorld0 True Mounts))\<lparr>enabling := True\<rparr>)"
    by simp
  have b: "\<not> enabling (idle (simWorld0 False Rejects))"
    by (simp add: idle_def)
  have c: "SetEnabling True \<in> set (newEvents (idle (simWorld0 False Rejects))
      (handler (simService ''linux'') (Toggle True) (idle (simWorld0 False Rejects))))"
    by code_simp
  show ?thesis
    using a b c
      single_flight_guard [of "(idle (simWorld0 True Mounts))\<lparr>enabling := True\<rparr>"
        "simService ''linux''" PurgeCache]
      single_flight_guard [of "idle (simWorld0 False Rejects)" "simService ''linux''" "Toggle True"]
    by blast
qed

subsection \<open>Failures\<close>




subsection \<open>Enabling\<close>

text \<open>
  C5. Enabling with the guard free, the mount path accepted (or the platform win32, where
  it is not checked): when \<open>restartVirtualDrive\<close> resolves but the two signals queried
  after it are not both true, the handler throws \<open>Could not start virtual drive.\<close>
  itself. The run ends as a rejected native call would: the error is logged and shown,
  the one configuration write is the catch block's \<open>enabled := false\<close>, no query is
  refreshed, and the guard is released.
\<close>

theorem enable_is_reverified:
  assumes "\<not> enabling s"
    and "if api_platform api = ''win32'' then w1 = world s
         else api_verifyUnixMountPath api (mountPoint (virtualDriveConfig (desktopConfig s)))
                (world s) = (Inr True, w1)"
    and "api_restartVirtualDrive api w1 = (Inr (), w2)"
    and "api_isVirtualDriveMounted api w2 = (Inr present, w3)"
    and "api_isVirtualDriveActive api w3 = (Inr active, w4)"
    and "\<not> (present \<and> active)"
  shows "onCheckedChange api True s =
         s\<lparr>desktopConfig := (desktopConfig s)\<lparr>virtualDriveConfig :=
              (virtualDriveConfig (desktopConfig s))\<lparr>enabled := False\<rparr>\<rparr>,
           world := w4,
           trace := trace s @ [SetEnabling True] @
             (if api_platform api = ''win32'' then []
              else [Call (VerifyUnixMountPath (mountPoint (virtualDriveConfig (desktopConfig s))))]) @
             [Call RestartVirtualDrive, Call IsVirtualDriveMounted, Call IsVirtualDriveActive,
              ConsoleError (newError ''Could not start virtual drive.''),
              ErrorToast ''Could not start virtual drive.'',
              SetDesktopConfig, SetEnabling False]\<rparr>"
proof (cases "api_platform api = ''win32''")
  case True
  with assms show ?thesis
    by (auto simp: onCheckedChange_def onCheckedChange_try_def step_defs newError_def)
next
  case False
  with assms show ?thesis
    by (auto simp: onCheckedChange_def onCheckedChange_try_def step_defs newError_def)
qed

theorem enable_is_reverified_witness:
  "\<not> enabling (idle (simWorld0 False ReportsSuccessOnly)) \<and>
   api_restartVirtualDrive (simService ''linux'') (simWorld0 False ReportsSuccessOnly) =
     (Inr (), simWorld0 False ReportsSuccessOnly) \<and>
   onCheckedChange (simService ''linux'') True (idle (simWorld0 False ReportsSuccessOnly)) =
     (idle (simWorld0 False ReportsSuccessOnly))
       \<lparr>desktopConfig := \<lparr>virtualDriveConfig =
            \<lparr>enabled = False, mountPoint = ''/old'', cacheSizeInGi = JsInt 10\<rparr>\<rparr>,
        trace := [SetEnabling True, Call (VerifyUnixMountPath ''/old''),
          Call RestartVirtualDrive, Call IsVirtualDriveMounted, Call IsVirtualDriveActive,
          ConsoleError (newError ''Could not start virtual drive.''),
          ErrorToast ''Could not start virtual drive.'',
          SetDesktopConfig, SetEnabling False]\<rparr>"
proof -
  let ?w = "simWorld0 False ReportsSuccessOnly"
  let ?api = "simService ''linux''"
  have a: "\<not> enabling (idle ?w)"
    by (simp add: idle_def)
  have b: "if api_platform ?api = ''win32'' then ?w = world (idle ?w)
         else api_verifyUnixMountPath ?api (mountPoint (virtualDriveConfig (desktopConfig (idle ?w))))
                (world (idle ?w)) = (Inr True, ?w)"
    by (simp add: idle_def simService_def simWorld0_def)
  have c: "api_restartVirtualDrive ?api ?w = (Inr (), ?w)"
    by (simp add: simService_def simWorld0_def)
  have d: "api_isVirtualDriveMounted ?api ?w = (Inr False, ?w)"
    by (simp add: simService_def simWorld0_def)
  have e: "api_isVirtualDriveActive ?api ?w = (Inr False, ?w)"
    by (simp add: simService_def simWorld0_def)
  have f: "\<not> (False \<and> False)"
    by simp
  show ?thesis
    using a c enable_is_reverified [OF a b c d e f] by (simp add: idle_def simService_def)
qed

subsection \<open>Declined and cancelled requests\<close>

text \<open>
  C6. Disabling with the guard free and the confirmation declined: the handler returns
  the state it was given, but for the dialog having been shown. The guard was never
  taken (no \<open>setEnabling\<close> event), no native call was made, no error was shown, and the
  declared configuration and the four queries are untouched.
\<close>

theorem declined_disable_changes_nothing:
  assumes "\<not> enabling s"
    and "showConfirmDialog api (world s) = (False, w')"
  shows "onCheckedChange api False s =
         s\<lparr>world := w',
           trace := trace s @ [ShowConfirmDialog ''mounts.virtualDrive.dialogs.disable.title'']\<rparr>"
  using assms by (simp add: onCheckedChange_def confirm_def emit_def)

theorem declined_disable_changes_nothing_witness:
  "\<not> enabling (idle ((simWorld0 True Mounts)\<lparr>simConfirm := False\<rparr>)) \<and>
   showConfirmDialog (simService ''linux'')
     (world (idle ((simWorld0 True Mounts)\<lparr>simConfirm := False\<rparr>))) =
     (False, (simWorld0 True Mounts)\<lparr>simConfirm := False\<rparr>) \<and>
   onCheckedChange (simService ''linux'') False
     (idle ((simWorld0 True Mounts)\<lparr>simConfirm := False\<rparr>)) =
     (idle ((simWorld0 True Mounts)\<lparr>simConfirm := False\<rparr>))
       \<lparr>trace := [ShowConfirmDialog ''mounts.virtualDrive.dialogs.disable.title'']\<rparr>"
proof -
  have a: "\<not> enabling (idle ((simWorld0 True Mounts)\<lparr>simConfirm := False\<rparr>))"
    by (simp add: idle_def)
  have b: "showConfirmDialog (simService ''linux'')
     (world (idle ((simWorld0 True Mounts)\<lparr>simConfirm := False\<rparr>))) =
     (False, (simWorld0 True Mounts)\<lparr>simConfirm := False\<rparr>)"
    by (simp add: idle_def simService_def)
  show ?thesis
    using a b declined_disable_changes_nothing [OF a b] by (simp add: idle_def)
qed

text \<open>
  C10. Changing the mount point with the guard free: when the directory picker resolves
  cancelled, or with no first path (none, or an empty one), the only native call is the
  picker, nothing is validated or remounted, no error is shown, the declared
  configuration and the queries are untouched, and the guard taken at entry is released.
\<close>

theorem cancelled_picker_changes_nothing:
  assumes "\<not> enabling s"
    and "api_selectDirectory api False (world s) = (Inr r, w')"
    and "cancelled r \<or> paths r = [] \<or> hd (paths r) = []"
  shows "changeMountPoint api s =
         s\<lparr>world := w',
           trace := trace s @ [SetEnabling True, Call SelectDirectory, SetEnabling False]\<rparr>"
  using assms
  by (cases "paths r")
     (auto simp: changeMountPoint_def changeMountPoint_try_def step_defs)

theorem cancelled_picker_changes_nothing_witness:
  "\<not> enabling (idle ((simWorld0 False Mounts)\<lparr>simPick := \<lparr>cancelled = True, paths = []\<rparr>\<rparr>)) \<and>
   changeMountPoint (simService ''linux'')
     (idle ((simWorld0 False Mounts)\<lparr>simPick := \<lparr>cancelled = True, paths = []\<rparr>\<rparr>)) =
     (idle ((simWorld0 False Mounts)\<lparr>simPick := \<lparr>cancelled = True, paths = []\<rparr>\<rparr>))
       \<lparr>trace := [SetEnabling True, Call SelectDirectory, SetEnabling False]\<rparr>"
proof -
  have a: "\<not> enabling (idle ((simWorld0 False Mounts)\<lparr>simPick := \<lparr>cancelled = True, paths = []\<rparr>\<rparr>))"
    by (simp add: idle_def)
  have b: "api_selectDirectory (simService ''linux'') False
      (world (idle ((simWorld0 False Mounts)\<lparr>simPick := \<lparr>cancelled = True, paths = []\<rparr>\<rparr>))) =
      (Inr \<lparr>cancelled = True, paths = []\<rparr>,
       (simWorld0 False Mounts)\<lparr>simPick := \<lparr>cancelled = True, paths = []\<rparr>\<rparr>)"
    by (simp add: idle_def simService_def)
  have c: "cancelled \<lparr>cancelled = True, paths = []\<rparr> \<or> paths \<lparr>cancelled = True, paths = []\<rparr> = []
           \<or> hd (paths \<lparr>cancelled = True, paths = []\<rparr>) = []"
    by simp
  show ?thesis
    using a cancelled_picker_changes_nothing [OF a b c] by (simp add: idle_def)
qed

subsection \<open>Purging the cache\<close>

text \<open>
  C2 at a concrete input: the purge button is offered (the cached mount query says not
  mounted) while the drive is in fact mounted, and every native call resolves.
  \<open>cleanupCache\<close> stops the drive, purges, and only then asks whether the drive is
  mounted; it no longer is, so \<open>restartVirtualDrive\<close> is never called. The drive is
  left stopped, the refreshed query observes \<open>mounted = false\<close>, \<open>enabled\<close> is still
  true and no error is shown.
\<close>

theorem purge_leaves_mounted_drive_stopped:
  "fst (isVirtualDriveMounted (simService ''linux'') (shown False (simWorld0 True Mounts))) =
     Inr \<lparr>mounted = True\<rparr> \<and>
   trace (cleanupCache (simService ''linux'') (shown False (simWorld0 True Mounts))) =
     [ShowConfirmDialog ''mounts.virtualDrive.dialogs.cleanupCache.title'',
      SetEnabling True, Call StopVirtualDrive, Call VirtualDriveCleanupCache,
      Call IsVirtualDriveMounted, Call IsVirtualDriveActive,
      Call VirtualDriveCacheSize, Call IsVirtualDriveMounted, Call IsVirtualDriveActive,
      SetEnabling False] \<and>
   isMountedQuery (cleanupCache (simService ''linux'') (shown False (simWorld0 True Mounts))) =
     Success \<lparr>mounted = False\<rparr> \<and>
   \<not> simPresent (world
     (cleanupCache (simService ''linux'') (shown False (simWorld0 True Mounts)))) \<and>
   enabled (virtualDriveConfig (desktopConfig
     (cleanupCache (simService ''linux'') (shown False (simWorld0 True Mounts)))))"
  by code_simp

subsection \<open>Changing the cache size\<close>

text \<open>
  C3, as the code has it. \<open>onCacheChange\<close> does not compare the requested size with the
  cache steps: for every requested size text, one of the steps or not, with the guard
  free, the mount path accepted (or the platform win32) and the drive found not mounted,
  it queries the two signals, refreshes the mount, target and cache-budget queries, and
  then stores \<open>parseInt(size)\<close> as \<open>cacheSizeInGi\<close>, leaving \<open>enabled\<close> and
  \<open>mountPoint\<close> as they were.
\<close>

theorem onCacheChange_persists_requested_size:
  assumes "\<not> enabling s"
    and "if api_platform api = ''win32'' then w1 = world s
         else api_verifyUnixMountPath api (mountPoint (virtualDriveConfig (desktopConfig s)))
                (world s) = (Inr True, w1)"
    and "api_isVirtualDriveMounted api w1 = (Inr present, w2)"
    and "api_isVirtualDriveActive api w2 = (Inr active, w3)"
    and "\<not> (present \<and> active)"
  shows "virtualDriveConfig (desktopConfig (onCacheChange api sizeText s)) =
           (virtualDriveConfig (desktopConfig s))\<lparr>cacheSizeInGi := parseInt api sizeText\<rparr> \<and>
         newEvents s (onCacheChange api sizeText s) =
           [SetEnabling True] @
           (if api_platform api = ''win32'' then []
            else [Call (VerifyUnixMountPath (mountPoint (virtualDriveConfig (desktopConfig s))))]) @
           [Call IsVirtualDriveMounted, Call IsVirtualDriveActive,
            Call IsVirtualDriveMounted, Call IsVirtualDriveActive] @
           (if api_platform api = ''win32'' then [Call GetAvailableDrives] else []) @
           [Call VirtualDriveAvailableCache, SetDesktopConfig, SetEnabling False]"
proof (cases "api_platform api = ''win32''")
  case True
  with assms show ?thesis
    by (auto simp: onCacheChange_def onCacheChange_try_def step_defs newEvents_def)
next
  case False
  with assms show ?thesis
    by (auto simp: onCacheChange_def onCacheChange_try_def step_defs newEvents_def)
qed

theorem onCacheChange_persists_requested_size_witness:
  "\<not> enabling (shown False (simWorld0 False Mounts)) \<and>
   virtualDriveConfig (desktopConfig
     (onCacheChange (simService ''linux'') ''999'' (shown False (simWorld0 False Mounts)))) =
     \<lparr>enabled = True, mountPoint = ''/old'', cacheSizeInGi = JsInt 999\<rparr> \<and>
   newEvents (shown False (simWorld0 False Mounts))
     (onCacheChange (simService ''linux'') ''999'' (shown False (simWorld0 False Mounts))) =
     [SetEnabling True, Call (VerifyUnixMountPath ''/old''),
      Call IsVirtualDriveMounted, Call IsVirtualDriveActive,
      Call IsVirtualDriveMounted, Call IsVirtualDriveActive,
      Call VirtualDriveAvailableCache, SetDesktopConfig, SetEnabling False]"
proof -
  let ?api = "simService ''linux''"
  let ?w = "simWorld0 False Mounts"
  have a: "\<not> enabling (shown False ?w)"
    by (simp add: shown_def idle_def)
  have b: "if api_platform ?api = ''win32'' then ?w = world (shown False ?w)
         else api_verifyUnixMountPath ?api
                (mountPoint (virtualDriveConfig (desktopConfig (shown False ?w))))
                (world (shown False ?w)) = (Inr True, ?w)"
    by (simp add: shown_def idle_def simService_def simWorld0_def)
  have c: "api_isVirtualDriveMounted ?api ?w = (Inr False, ?w)"
    by (simp add: simService_def simWorld0_def)
  have d: "api_isVirtualDriveActive ?api ?w = (Inr False, ?w)"
    by (simp add: simService_def simWorld0_def)
  have e: "\<not> (False \<and> False)"
    by simp
  have p: "simParseInt ''999'' = JsInt 999"
    by code_simp
  show ?thesis
    using a onCacheChange_persists_requested_size [OF a b c d e, of "''999''"]
    by (simp add: p shown_def idle_def simService_def)
qed

text \<open>
  C3, as stated, fails: with the selector shown and the cache steps \<open>[10, 20]\<close>, the
  request \<open>999\<close> is not one of the steps and is not rejected; the native service is
  called and \<open>999\<close> is stored.
\<close>

theorem onCacheChange_out_of_set_counterexample:
  "cacheSteps (generateCacheSteps [10, 20, 50])
     (availableCacheSizeQuery (shown False (simWorld0 False Mounts))) = [10, 20] \<and>
   parseInt (simService ''linux'') ''999'' = JsInt 999 \<and>
   999 \<notin> set (cacheSteps (generateCacheSteps [10, 20, 50])
     (availableCacheSizeQuery (shown False (simWorld0 False Mounts)))) \<and>
   trace (onCacheChange (simService ''linux'') ''999'' (shown False (simWorld0 False Mounts))) =
     [SetEnabling True, Call (VerifyUnixMountPath ''/old''),
      Call IsVirtualDriveMounted, Call IsVirtualDriveActive,
      Call IsVirtualDriveMounted, Call IsVirtualDriveActive,
      Call VirtualDriveAvailableCache, SetDesktopConfig, SetEnabling False] \<and>
   cacheSizeInGi (virtualDriveConfig (desktopConfig
     (onCacheChange (simService ''linux'') ''999'' (shown False (simWorld0 False Mounts))))) =
     JsInt 999"
  by code_simp

subsection \<open>Changing the mount point\<close>

text \<open>
  C7 at a concrete input: on linux, with \<open>/old\<close> configured and usable and the picked
  \<open>/new\<close> not usable, \<open>changeMountPoint\<close> passes the configured \<open>/old\<close> to
  \<open>verifyUnixMountPath\<close>, never the picked path, and stores \<open>/new\<close>.
\<close>

theorem changeMountPoint_checks_configured_path:
  "fst (api_verifyUnixMountPath (simService ''linux'') ''/new'' (simWorld0 False Mounts)) =
     Inr False \<and>
   trace (changeMountPoint (simService ''linux'') (idle (simWorld0 False Mounts))) =
     [SetEnabling True, Call SelectDirectory, Call (VerifyUnixMountPath ''/old''),
      Call IsVirtualDriveMounted, Call IsVirtualDriveActive,
      Call IsVirtualDriveMounted, Call IsVirtualDriveActive,
      SetDesktopConfig, SetEnabling False] \<and>
   mountPoint (virtualDriveConfig (desktopConfig
     (changeMountPoint (simService ''linux'') (idle (simWorld0 False Mounts))))) = ''/new''"
  by code_simp

subsection \<open>Cache steps\<close>

text \<open>
  C9. \<open>generateCacheSteps\<close> gives \<open>[10]\<close> for the budget zero and for every negative
  budget; \<open>cacheSteps\<close> is \<open>[10]\<close> whenever the budget query has not succeeded,
  whatever the generator (it is not applied); and with the generator above it is \<open>[10]\<close>
  too when the query succeeded with no bytes or fewer.
\<close>

theorem cacheSteps_default:
  "generateCacheSteps ladder 0 = [10] \<and>
   (budget < 0 \<longrightarrow> generateCacheSteps ladder budget = [10]) \<and>
   (\<not> isSuccess availableCacheSize \<longrightarrow> cacheSteps generate availableCacheSize = [10]) \<and>
   (bytes \<le> 0 \<longrightarrow> cacheSteps (generateCacheSteps ladder) (Success bytes) = [10])"
proof -
  have "bytes \<le> 0 \<Longrightarrow> bytes div (1024 * 1024 * 1024) \<le> 0"
    by (simp add: div_nonpos_pos_le0)
  then show ?thesis
    by (auto simp: generateCacheSteps_def cacheSteps_def isSuccess_def split: query.splits)
qed

theorem cacheSteps_default_witness:
  "(- 3 :: int) < 0 \<and> generateCacheSteps [10, 20, 50] (- 3) = [10] \<and>
   \<not> isSuccess (Failed (Some (53687091200 :: int))) \<and>
   cacheSteps (generateCacheSteps [10, 20, 50]) (Failed (Some 53687091200)) = [10] \<and>
   (- 1 :: int) \<le> 0 \<and>
   cacheSteps (generateCacheSteps [10, 20, 50]) (Success (- 1)) = [10]"
proof -
  have a: "(- 3 :: int) < 0" and b: "\<not> isSuccess (Failed (Some (53687091200 :: int)))"
    and c: "(- 1 :: int) \<le> 0"
    by (simp_all add: isSuccess_def)
  show ?thesis
    using a b c
      cacheSteps_default [of "[10, 20, 50]" "- 3" "Failed (Some 53687091200)"
        "generateCacheSteps [10, 20, 50]" "- 1"]
    by blast
qed

end
